theory Spec2Isabelle
  imports Complex_Main
begin

section \<open>Arrays and floating values\<close>

text \<open>
  The notebook \<^verbatim>\<open>PCA.ipynb\<close> works on two-dimensional numpy arrays. An array of shape
  \<open>(n, d)\<close> is a list of \<open>n\<close> rows of length \<open>d\<close>; every array below has at least one
  row (\<^verbatim>\<open>StandardScaler\<close> refuses an array without rows, so no later cell sees one).

  Arithmetic is the exact arithmetic of the reals: rounding of the 64-bit floats is not
  modelled. What is modelled of the floats is the value that is not a number: a missing
  rating (\<^verbatim>\<open>np.nan\<close> in the pivot table) and the result of a division by zero (numpy
  gives \<^verbatim>\<open>nan\<close> or \<^verbatim>\<open>inf\<close> with a RuntimeWarning and raises nothing) are \<open>None\<close>.
\<close>

definition nrows :: "'a list list \<Rightarrow> nat" where
  \<comment> \<open>\<^verbatim>\<open>X.shape[0]\<close>\<close>
  "nrows X = length X"

definition ncols :: "'a list list \<Rightarrow> nat" where
  \<comment> \<open>\<^verbatim>\<open>X.shape[1]\<close>, for an array with a row\<close>
  "ncols X = (case X of [] \<Rightarrow> 0 | r # _ \<Rightarrow> length r)"

definition is_matrix :: "nat \<Rightarrow> nat \<Rightarrow> 'a list list \<Rightarrow> bool" where
  \<comment> \<open>the array is rectangular, of shape \<open>(n, d)\<close>\<close>
  "is_matrix n d X \<longleftrightarrow> length X = n \<and> list_all (\<lambda>r. length r = d) X"

definition col :: "'a list list \<Rightarrow> nat \<Rightarrow> 'a list" where
  \<comment> \<open>\<^verbatim>\<open>X[:, j]\<close>\<close>
  "col X j = map (\<lambda>r. r ! j) X"

definition np_T :: "'a list list \<Rightarrow> 'a list list" where
  \<comment> \<open>\<^verbatim>\<open>X.T\<close>\<close>
  "np_T X = map (col X) [0..<ncols X]"

definition np_dot :: "real list list \<Rightarrow> real list list \<Rightarrow> real list list" where
  \<comment> \<open>\<^verbatim>\<open>A.dot(B)\<close>: entry \<open>(j, k)\<close> is the sum of the products of row \<open>j\<close> of \<open>A\<close>
     and column \<open>k\<close> of \<open>B\<close>\<close>
  "np_dot A B = map (\<lambda>r. map (\<lambda>c. sum_list (map2 (*) r c)) (np_T B)) A"

definition np_mean :: "real list \<Rightarrow> real" where
  \<comment> \<open>\<^verbatim>\<open>np.mean\<close> along an axis of positive length\<close>
  "np_mean xs = sum_list xs / real (length xs)"

definition np_var :: "real list \<Rightarrow> real" where
  \<comment> \<open>\<^verbatim>\<open>np.var\<close> with \<^verbatim>\<open>ddof=0\<close>: the mean of the squared deviations\<close>
  "np_var xs = sum_list (map (\<lambda>x. (x - np_mean xs)\<^sup>2) xs) / real (length xs)"

definition np_true_divide :: "real \<Rightarrow> real \<Rightarrow> real option" where
  \<comment> \<open>float division: by zero it yields \<^verbatim>\<open>nan\<close> (\<^verbatim>\<open>0/0\<close>) or \<^verbatim>\<open>inf\<close>, not an exception\<close>
  "np_true_divide x y = (if y = 0 then None else Some (x / y))"

definition fmul :: "real option \<Rightarrow> real option \<Rightarrow> real option" where
  "fmul a b = (case (a, b) of (Some x, Some y) \<Rightarrow> Some (x * y) | _ \<Rightarrow> None)"

fun cumsum_from :: "real \<Rightarrow> real list \<Rightarrow> real list" where
  "cumsum_from acc [] = []"
| "cumsum_from acc (x # xs) = (acc + x) # cumsum_from (acc + x) xs"

definition np_cumsum :: "real list \<Rightarrow> real list" where
  \<comment> \<open>\<^verbatim>\<open>np.cumsum(a)\<close> of an array of numbers: the running sums\<close>
  "np_cumsum xs = cumsum_from 0 xs"

definition constant_col :: "real list \<Rightarrow> bool" where
  \<comment> \<open>a feature column whose entries are all the same\<close>
  "constant_col xs \<longleftrightarrow> (\<forall>x\<in>set xs. \<forall>y\<in>set xs. x = y)"

section \<open>Part 1 of the notebook: standardization\<close>

text \<open>
  \<^verbatim>\<open>
  M = ratings.pivot_table(index=['userId'], columns=['movieId'], values='rating')
  df1 = M.replace(np.nan, 0, regex=True)
  X_std = StandardScaler().fit_transform(df1)
  \<close>
  \<open>M\<close> is the pivot table: one row per user, one column per movie, \<open>None\<close> where the
  user has not rated the movie.
\<close>

datatype error = ValueError | NameError string

definition df1 :: "real option list list \<Rightarrow> real list list" where
  "df1 M = map (map (\<lambda>x. case x of None \<Rightarrow> 0 | Some v \<Rightarrow> v)) M"

text \<open>
  \<^verbatim>\<open>StandardScaler\<close> is scikit-learn's class; the model follows its documentation.
  \<^verbatim>\<open>fit\<close> stores, per column, the mean \<^verbatim>\<open>mean_\<close>, the variance \<^verbatim>\<open>var_\<close> (the biased
  estimator, \<^verbatim>\<open>ddof=0\<close>) and \<^verbatim>\<open>scale_ = _handle_zeros_in_scale(np.sqrt(var_))\<close>, where
  a scale of zero is replaced by 1 (``if a variance is zero, we can't achieve unit
  variance, and the data is left as-is, giving a scaling factor of 1''). \<^verbatim>\<open>transform\<close>
  subtracts \<^verbatim>\<open>mean_\<close> and divides by \<^verbatim>\<open>scale_\<close> (\<^verbatim>\<open>X /= self.scale_\<close>, numpy's float
  division: by a scale of zero it would give \<^verbatim>\<open>nan\<close>). Input validation raises
  \<^verbatim>\<open>ValueError\<close> for an array with no row or no column.
\<close>

definition handle_zeros_in_scale :: "real \<Rightarrow> real" where
  "handle_zeros_in_scale s = (if s = 0 then 1 else s)"

definition StandardScaler_fit_transform ::
    "real list list \<Rightarrow> error + real option list list" where
  "StandardScaler_fit_transform X =
     (if nrows X = 0 \<or> ncols X = 0 then Inl ValueError
      else
        let d = ncols X;
            mean_s = map (\<lambda>j. np_mean (col X j)) [0..<d];
            var_s = map (\<lambda>j. np_var (col X j)) [0..<d];
            scale_s = map (\<lambda>v. handle_zeros_in_scale (sqrt v)) var_s
        in Inr (map (\<lambda>r. map (\<lambda>j. np_true_divide (r ! j - mean_s ! j) (scale_s ! j))
                          [0..<d]) X))"

definition X_std :: "real option list list \<Rightarrow> error + real option list list" where
  "X_std M = StandardScaler_fit_transform (df1 M)"

definition scaled :: "real list list \<Rightarrow> nat \<Rightarrow> real list list" where
  \<comment> \<open>the numbers of the array \<^verbatim>\<open>fit_transform\<close> returns for an \<open>(n, d)\<close> array\<close>
  "scaled X d = map (\<lambda>r. map (\<lambda>j. (r ! j - np_mean (col X j)) /
        handle_zeros_in_scale (sqrt (np_var (col X j)))) [0..<d]) X"


section \<open>Part 2 of the notebook: the covariance matrix\<close>

text \<open>
  \<^verbatim>\<open>
  mean_vec = np.mean(X_std, axis=0)
  cov_mat = (X_std - mean_vec).T.dot((X_std - mean_vec)) / (X_std.shape[0]-1)
  \<close>
  The cell has no check of \<^verbatim>\<open>X_std.shape[0]\<close> and no \<^verbatim>\<open>raise\<close>; the division of the
  array by \<^verbatim>\<open>X_std.shape[0]-1\<close> is numpy's element-wise float division.
\<close>

definition mean_vec :: "real list list \<Rightarrow> real list" where
  "mean_vec X = map (\<lambda>j. np_mean (col X j)) [0..<ncols X]"

definition sub_rows :: "real list list \<Rightarrow> real list \<Rightarrow> real list list" where
  \<comment> \<open>\<^verbatim>\<open>X - v\<close>: the vector is subtracted from every row (broadcasting)\<close>
  "sub_rows X v = map (\<lambda>r. map2 (-) r v) X"

definition cov_mat :: "real list list \<Rightarrow> real option list list" where
  "cov_mat X =
     map (map (\<lambda>x. np_true_divide x (real (nrows X) - 1)))
       (np_dot (np_T (sub_rows X (mean_vec X))) (sub_rows X (mean_vec X)))"

definition centred :: "real list list \<Rightarrow> nat \<Rightarrow> nat \<Rightarrow> real" where
  \<comment> \<open>entry \<open>(i, j)\<close> of \<^verbatim>\<open>X_std - mean_vec\<close>\<close>
  "centred X i j = X ! i ! j - np_mean (col X j)"

definition covariance :: "real list list \<Rightarrow> error + real option list list" where
  \<comment> \<open>the cell as a stage with a result: nothing on its path raises\<close>
  "covariance X = Inr (cov_mat X)"

text \<open>
  \<^verbatim>\<open>np.cov(X_std.T)\<close> is numpy's function; the model follows its source. Each row of the
  argument is a variable, each column an observation:
  \<^verbatim>\<open>
  avg = average(X, axis=1)
  fact = X.shape[1] - ddof                  # ddof = 1
  if fact <= 0: warnings.warn(...); fact = 0.0
  X -= avg[:, None]
  c = dot(X, X.T.conj())
  c *= np.true_divide(1, fact)
  return c.squeeze()
  \<close>
  \<^verbatim>\<open>squeeze\<close> drops the axes of length one, so for a single variable the result is a
  zero-dimensional array holding one value, not an array of shape \<open>(1, 1)\<close>.
\<close>

datatype ndarray = Scalar "real option" | Matrix "real option list list"

fun squeeze :: "real option list list \<Rightarrow> ndarray" where
  "squeeze [[v]] = Scalar v"
| "squeeze c = Matrix c"

definition np_cov :: "real list list \<Rightarrow> ndarray" where
  "np_cov m =
     (let avg = map np_mean m;
          fact0 = real (ncols m) - 1;
          fact = (if fact0 \<le> 0 then 0 else fact0);
          X = map2 (\<lambda>r a. map (\<lambda>x. x - a) r) m avg;
          c = np_dot X (np_T X)
      in squeeze (map (map (\<lambda>x. fmul (Some x) (np_true_divide 1 fact))) c))"


section \<open>Part 3 of the notebook: the eigenpairs and the explained variance\<close>

text \<open>
  \<^verbatim>\<open>
  eig_vals, eig_vecs = np.linalg.eig(cov_mat)
  # Visually confirm that the list is correctly sorted by decreasing eigenvalues
  eig_pairs = [(np.abs(eig_vals[i]), eig_vecs[:,i]) for i in range(len(eig_vals))]
  print('Eigenvalues in descending order:')
  for i in eig_pairs:
      print(i[0])
  \<close>
  \<^verbatim>\<open>np.linalg.eig\<close> is LAPACK's solver and is not computed here: its two results are
  the arguments of \<open>eig_pairs\<close>, and \<open>is_eigenpair\<close> checks a pair against the matrix.
  The eigenvalues of the symmetric matrices at hand are real, and they come in no
  particular order (numpy: ``the eigenvalues are not necessarily ordered''); of a
  diagonal matrix they are the diagonal, in its order.
\<close>

definition eig_pairs :: "real list \<Rightarrow> real list list \<Rightarrow> (real \<times> real list) list" where
  "eig_pairs eig_vals eig_vecs =
     map (\<lambda>i. (\<bar>eig_vals ! i\<bar>, col eig_vecs i)) [0..<length eig_vals]"

definition is_eigenpair :: "real list list \<Rightarrow> real \<Rightarrow> real list \<Rightarrow> bool" where
  \<comment> \<open>\<open>C v = lam v\<close> for a vector \<open>v\<close> of norm 1\<close>
  "is_eigenpair C lam v \<longleftrightarrow>
     map (\<lambda>r. sum_list (map2 (*) r v)) C = map (\<lambda>x. lam * x) v \<and>
     sum_list (map (\<lambda>x. x * x) v) = 1"


text \<open>
  The names the notebook binds, and the two cells that use \<^verbatim>\<open>PCA\<close>:
  \<^verbatim>\<open>
  import pandas as pd
  import numpy as np
  from sklearn.preprocessing import StandardScaler
  from matplotlib import*
  import matplotlib.pyplot as plt
  from matplotlib.cm import register_cmap
  from scipy import stats
  #from wpca import PCA
  from sklearn.decomposition import PCA as sklearnPCA
  import seaborn
  ...
  pca = PCA(n_components=2)
  pca.fit_transform(df1)
  print pca.explained_variance_ratio_
  ...
  pca = PCA().fit(X_std)
  plt.plot(np.cumsum(pca.explained_variance_ratio_))
  \<close>
  scikit-learn's class is bound to the name \<^verbatim>\<open>sklearnPCA\<close>, and the import that would
  bind \<^verbatim>\<open>PCA\<close> is a comment. The names that \<^verbatim>\<open>from matplotlib import*\<close> binds are not
  in the notebook: they are the argument \<open>star\<close>. Loading a name that is not bound
  (and is no builtin of Python, as \<^verbatim>\<open>PCA\<close> is not) raises \<^verbatim>\<open>NameError\<close>. What the class bound to \<^verbatim>\<open>PCA\<close> would compute, were there
  one, is the argument \<open>fitted_ratio\<close>.
\<close>

definition notebook_names :: "string list \<Rightarrow> string list" where
  "notebook_names star =
     [''pd'', ''np'', ''StandardScaler''] @ star @
     [''plt'', ''register_cmap'', ''stats'', ''sklearnPCA'', ''seaborn'',
      ''movies'', ''ratings'', ''replace_name'', ''M'', ''m'', ''df1'', ''X_std'',
      ''mean_vec'', ''cov_mat'', ''eig_vals'', ''eig_vecs'', ''eig_pairs'', ''i'']"

definition load_name :: "string list \<Rightarrow> string \<Rightarrow> error + string" where
  "load_name names x = (if x \<in> set names then Inr x else Inl (NameError x))"

definition pca_explained_variance_ratio ::
    "string list \<Rightarrow> (real list list \<Rightarrow> real list) \<Rightarrow> real list list \<Rightarrow> error + real list" where
  \<comment> \<open>\<^verbatim>\<open>PCA().fit(X_std).explained_variance_ratio_\<close>\<close>
  "pca_explained_variance_ratio star fitted_ratio X =
     (case load_name (notebook_names star) ''PCA'' of
        Inl e \<Rightarrow> Inl e
      | Inr c \<Rightarrow> Inr (fitted_ratio X))"


section \<open>The ratios of the ranker, projection and reconstruction\<close>

text \<open>
  Modelled from the spec: the explained-variance ratios of the ComponentRanker and the
  Projector. The notebook computes no ratio itself (the cells that would ask a
  \<^verbatim>\<open>PCA\<close> object for them raise \<^verbatim>\<open>NameError\<close>), and it has no cell that projects the
  data onto the eigenvectors or reconstructs it. In the spec \<^verbatim>\<open>total_variance\<close> is the
  sum of the eigenvalues over all D, the ranker fails with \<^verbatim>\<open>DegenerateSpectrum\<close> when
  it is 0 (in exact arithmetic), and the ratio of a component is
  \<^verbatim>\<open>eigenvalue_i / sum(all eigenvalues)\<close>; the basis is ``the first K eigenvectors of
  RankedComponents, assembled as a D\<times>K matrix''; the projection is
  \<^verbatim>\<open>reduced[i] = std[i] . basis\<close> and the reconstruction \<^verbatim>\<open>std_approx = reduced . basis^t\<close>.
  The running sum of the ratios is the notebook's \<^verbatim>\<open>np.cumsum\<close>, the ranked components
  are the notebook's \<open>eig_pairs\<close>.
\<close>

datatype spec_error = DegenerateSpectrum

definition explained_ratios :: "real list \<Rightarrow> spec_error + real list" where
  \<comment> \<open>Modelled from the spec: \<^verbatim>\<open>eigenvalue_i / sum(all eigenvalues)\<close>, failing with
     \<^verbatim>\<open>DegenerateSpectrum\<close> when the sum is 0\<close>
  "explained_ratios ev =
     (let total_variance = sum_list ev
      in if total_variance = 0 then Inl DegenerateSpectrum
         else Inr (map (\<lambda>e. e / total_variance) ev))"





section \<open>Standardization: zero mean, unit variance\<close>

lemma sum_list_centered:
  "xs \<noteq> [] \<Longrightarrow> sum_list (map (\<lambda>x. x - np_mean xs) xs) = 0"
  by (simp add: np_mean_def sum_list_subtractf sum_list_triv)

lemma sum_list_div_const:
  "sum_list (map (\<lambda>x. f x / c) xs) = sum_list (map f xs) / (c::real)"
  by (induction xs) (simp_all add: add_divide_distrib)

lemma np_mean_scaled:
  "xs \<noteq> [] \<Longrightarrow> np_mean (map (\<lambda>x. (x - np_mean xs) / s) xs) = 0"
  unfolding np_mean_def[of "map _ _"]
  by (simp add: o_def sum_list_div_const sum_list_centered)

lemma np_var_nonneg: "0 \<le> np_var xs"
  unfolding np_var_def by (intro divide_nonneg_nonneg sum_list_nonneg) auto

lemma np_var_scaled:
  assumes "xs \<noteq> []"
  shows "np_var (map (\<lambda>x. (x - np_mean xs) / s) xs) = np_var xs / s\<^sup>2"
proof -
  have "np_var (map (\<lambda>x. (x - np_mean xs) / s) xs)
      = sum_list (map (\<lambda>x. (x - np_mean xs)\<^sup>2 / s\<^sup>2) xs) / real (length xs)"
    unfolding np_var_def[of "map _ _"] using assms
    by (simp add: np_mean_scaled o_def power_divide)
  also have "\<dots> = np_var xs / s\<^sup>2"
    by (simp add: sum_list_div_const np_var_def)
  finally show ?thesis .
qed

lemma np_var_eq_0_iff:
  assumes "xs \<noteq> []"
  shows "np_var xs = 0 \<longleftrightarrow> (\<forall>x\<in>set xs. x = np_mean xs)"
proof -
  have "np_var xs = 0 \<longleftrightarrow> sum_list (map (\<lambda>x. (x - np_mean xs)\<^sup>2) xs) = 0"
    using assms by (simp add: np_var_def)
  also have "\<dots> \<longleftrightarrow> (\<forall>y\<in>set (map (\<lambda>x. (x - np_mean xs)\<^sup>2) xs). y = 0)"
    by (rule sum_list_nonneg_eq_0_iff) auto
  also have "\<dots> \<longleftrightarrow> (\<forall>x\<in>set xs. x = np_mean xs)"
    by auto
  finally show ?thesis .
qed

lemma constant_col_mean:
  assumes "xs \<noteq> []" "constant_col xs" "x \<in> set xs"
  shows "np_mean xs = x"
proof -
  have "map (\<lambda>y. y) xs = map (\<lambda>y. x) xs"
    using assms unfolding constant_col_def by (intro map_cong) auto
  then have "sum_list xs = real (length xs) * x"
    by (metis list.map_ident sum_list_triv)
  then show ?thesis using assms by (simp add: np_mean_def)
qed

lemma np_var_eq_0_iff_constant:
  assumes "xs \<noteq> []"
  shows "np_var xs = 0 \<longleftrightarrow> constant_col xs"
proof
  assume "np_var xs = 0"
  then show "constant_col xs"
    unfolding constant_col_def np_var_eq_0_iff[OF assms] by metis
next
  assume "constant_col xs"
  then show "np_var xs = 0"
    using assms constant_col_mean[OF assms] by (simp add: np_var_eq_0_iff)
qed

lemma is_matrix_ncols: "is_matrix n d X \<Longrightarrow> 0 < n \<Longrightarrow> ncols X = d"
  by (cases X) (simp_all add: is_matrix_def ncols_def)

lemma is_matrix_row: "is_matrix n d X \<Longrightarrow> i < n \<Longrightarrow> length (X ! i) = d"
  by (simp add: is_matrix_def list_all_length)

lemma is_matrix_df1: "is_matrix n d M \<Longrightarrow> is_matrix n d (df1 M)"
  by (simp add: is_matrix_def df1_def list_all_length)

lemma df1_nth:
  "is_matrix n d M \<Longrightarrow> i < n \<Longrightarrow> j < d \<Longrightarrow>
     df1 M ! i ! j = (case M ! i ! j of None \<Rightarrow> 0 | Some v \<Rightarrow> v)"
  by (simp add: is_matrix_def df1_def list_all_length)

lemma length_col: "length (col X j) = length X"
  by (simp add: col_def)

lemma col_nth: "i < length X \<Longrightarrow> col X j ! i = X ! i ! j"
  by (simp add: col_def)

lemma handle_zeros_in_scale_nonzero: "handle_zeros_in_scale s \<noteq> 0"
  by (simp add: handle_zeros_in_scale_def)

lemma StandardScaler_fit_transform_eq:
  assumes "is_matrix n d X" "0 < n" "0 < d"
  shows "StandardScaler_fit_transform X = Inr (map (map Some) (scaled X d))"
proof -
  have "ncols X = d" "nrows X = n"
    using assms by (simp_all add: is_matrix_ncols nrows_def is_matrix_def)
  then show ?thesis
    using assms unfolding StandardScaler_fit_transform_def scaled_def Let_def
    by (simp add: np_true_divide_def handle_zeros_in_scale_nonzero)
qed

lemma map_map_Some_eq: "map (map Some) A = map (map Some) B \<Longrightarrow> A = B"
  by simp

lemma is_matrix_scaled: "is_matrix n d X \<Longrightarrow> is_matrix n d (scaled X d)"
  by (simp add: is_matrix_def scaled_def list_all_length)

lemma scaled_nth:
  "i < length X \<Longrightarrow> j < d \<Longrightarrow>
   scaled X d ! i ! j =
     (X ! i ! j - np_mean (col X j)) / handle_zeros_in_scale (sqrt (np_var (col X j)))"
  by (simp add: scaled_def)

lemma col_scaled:
  "j < d \<Longrightarrow> col (scaled X d) j =
     map (\<lambda>x. (x - np_mean (col X j)) / handle_zeros_in_scale (sqrt (np_var (col X j))))
       (col X j)"
  by (simp add: scaled_def col_def o_def)

text \<open>
  Claim C1. For a pivot table \<open>M\<close> of shape \<open>(n, d)\<close> with missing entries, the notebook
  first replaces every missing entry by 0 (\<open>df1\<close>), then takes, per column \<open>j\<close>, the
  mean and the standard deviation over all \<open>n\<close> rows and returns the entry
  \<open>(df1[i][j] - mean_j) / std_j\<close>; every column that is not constant has mean 0 and
  variance 1 in the result. (For a constant column the quotient is not defined:
  that case is claim C8.)
\<close>

theorem X_std_standardizes:
  assumes "is_matrix n d M" "0 < n" "0 < d"
  shows "\<exists>out. X_std M = Inr (map (map Some) out) \<and> is_matrix n d out \<and>
    (\<forall>i<n. \<forall>j<d. df1 M ! i ! j = (case M ! i ! j of None \<Rightarrow> 0 | Some v \<Rightarrow> v)) \<and>
    (\<forall>j<d. \<not> constant_col (col (df1 M) j) \<longrightarrow>
        (\<forall>i<n. out ! i ! j =
            (df1 M ! i ! j - np_mean (col (df1 M) j)) / sqrt (np_var (col (df1 M) j))) \<and>
        np_mean (col out j) = 0 \<and> np_var (col out j) = 1)"
proof -
  let ?X = "df1 M"
  have mx: "is_matrix n d ?X" using assms(1) by (rule is_matrix_df1)
  have len: "length ?X = n" using mx by (simp add: is_matrix_def)
  have run: "X_std M = Inr (map (map Some) (scaled ?X d))"
    unfolding X_std_def using mx assms(2,3) by (rule StandardScaler_fit_transform_eq)
  have fill: "\<forall>i<n. \<forall>j<d. ?X ! i ! j = (case M ! i ! j of None \<Rightarrow> 0 | Some v \<Rightarrow> v)"
    using assms(1) by (simp add: df1_nth)
  have cols: "(\<forall>i<n. scaled ?X d ! i ! j =
            (?X ! i ! j - np_mean (col ?X j)) / sqrt (np_var (col ?X j))) \<and>
        np_mean (col (scaled ?X d) j) = 0 \<and> np_var (col (scaled ?X d) j) = 1"
    if j: "j < d" and nc: "\<not> constant_col (col ?X j)" for j
  proof -
    have ne: "col ?X j \<noteq> []" using len assms(2) by (auto simp: col_def)
    have v: "np_var (col ?X j) \<noteq> 0" using nc np_var_eq_0_iff_constant[OF ne] by simp
    then have s: "handle_zeros_in_scale (sqrt (np_var (col ?X j))) = sqrt (np_var (col ?X j))"
      by (simp add: handle_zeros_in_scale_def)
    have "np_var (col (scaled ?X d) j) = np_var (col ?X j) / (sqrt (np_var (col ?X j)))\<^sup>2"
      using j ne by (simp add: col_scaled s np_var_scaled)
    also have "\<dots> = 1" using v np_var_nonneg[of "col ?X j"] by simp
    finally have "np_var (col (scaled ?X d) j) = 1" .
    moreover have "np_mean (col (scaled ?X d) j) = 0"
      using j ne by (simp add: col_scaled np_mean_scaled)
    moreover have "\<forall>i<n. scaled ?X d ! i ! j =
            (?X ! i ! j - np_mean (col ?X j)) / sqrt (np_var (col ?X j))"
      using j len s by (simp add: scaled_nth)
    ultimately show ?thesis by simp
  qed
  show ?thesis
    using run is_matrix_scaled[OF mx] fill cols by blast
qed

theorem X_std_standardizes_witness:
  "is_matrix 2 3 [[Some 5, Some 1, None], [Some 5, Some 3, Some (4::real)]] \<and>
   \<not> constant_col (col (df1 [[Some 5, Some 1, None], [Some 5, Some 3, Some 4]]) 2) \<and>
   (\<exists>out. X_std [[Some 5, Some 1, None], [Some 5, Some 3, Some 4]] = Inr (map (map Some) out) \<and>
      out ! 0 ! 2 = (0 - 2) / sqrt 4 \<and>
      np_mean (col out 2) = 0 \<and> np_var (col out 2) = 1)"
proof -
  let ?M = "[[Some 5, Some 1, None], [Some 5, Some 3, Some (4::real)]]"
  have h: "is_matrix 2 3 ?M" by (simp add: is_matrix_def)
  have nc: "\<not> constant_col (col (df1 ?M) 2)"
    by (simp add: constant_col_def col_def df1_def)
  have m: "np_mean (col (df1 ?M) 2) = 2" "np_var (col (df1 ?M) 2) = 4" "df1 ?M ! 0 ! 2 = 0"
    by (simp_all add: np_mean_def np_var_def col_def df1_def power2_eq_square)
  from X_std_standardizes[OF h] obtain out where
    o: "X_std ?M = Inr (map (map Some) out)"
    and c: "\<forall>j<3. \<not> constant_col (col (df1 ?M) j) \<longrightarrow>
        (\<forall>i<2. out ! i ! j =
            (df1 ?M ! i ! j - np_mean (col (df1 ?M) j)) / sqrt (np_var (col (df1 ?M) j))) \<and>
        np_mean (col out j) = 0 \<and> np_var (col out j) = 1"
    by auto
  from c nc have e: "\<forall>i<2. out ! i ! 2 =
            (df1 ?M ! i ! 2 - np_mean (col (df1 ?M) 2)) / sqrt (np_var (col (df1 ?M) 2))"
    and mv: "np_mean (col out 2) = 0" "np_var (col out 2) = 1"
    by simp_all
  from e have "out ! 0 ! 2 =
            (df1 ?M ! 0 ! 2 - np_mean (col (df1 ?M) 2)) / sqrt (np_var (col (df1 ?M) 2))"
    by simp
  then have "out ! 0 ! 2 = (0 - 2) / sqrt 4"
    unfolding m .
  with h nc o mv show ?thesis by blast
qed

text \<open>
  Claim C8. A feature column that is constant across all rows does not make the
  standardization divide by zero: \<open>X_std\<close> returns an array, and that column of it is
  the number 0 throughout, not \<^verbatim>\<open>nan\<close>. The scale of such a column is replaced by 1;
  without that replacement the division \<open>0 / 0\<close> would give \<open>None\<close>.
\<close>

theorem X_std_constant_column:
  assumes "is_matrix n d M" "0 < n" "0 < d" "j < d" "constant_col (col (df1 M) j)"
  shows "\<exists>out. X_std M = Inr out \<and> is_matrix n d out \<and> (\<forall>i<n. out ! i ! j = Some 0)"
proof -
  let ?X = "df1 M"
  have mx: "is_matrix n d ?X" using assms(1) by (rule is_matrix_df1)
  have len: "length ?X = n" using mx by (simp add: is_matrix_def)
  have run: "X_std M = Inr (map (map Some) (scaled ?X d))"
    unfolding X_std_def using mx assms(2,3) by (rule StandardScaler_fit_transform_eq)
  have ne: "col ?X j \<noteq> []" using len assms(2) by (auto simp: col_def)
  have "scaled ?X d ! i ! j = 0" if "i < n" for i
  proof -
    have "col ?X j ! i \<in> set (col ?X j)" using that len by (simp add: length_col)
    then have "np_mean (col ?X j) = col ?X j ! i"
      using constant_col_mean[OF ne assms(5)] by simp
    then show ?thesis using that len assms(4) by (simp add: scaled_nth col_nth)
  qed
  moreover have "is_matrix n d (scaled ?X d)" using mx by (rule is_matrix_scaled)
  ultimately have "is_matrix n d (map (map Some) (scaled ?X d)) \<and>
      (\<forall>i<n. map (map Some) (scaled ?X d) ! i ! j = Some 0)"
    using assms(4) by (simp add: is_matrix_def list_all_length)
  then show ?thesis using run by blast
qed

theorem X_std_constant_column_witness:
  "is_matrix 2 3 [[Some 5, Some 1, None], [Some 5, Some 3, Some (4::real)]] \<and>
   constant_col (col (df1 [[Some 5, Some 1, None], [Some 5, Some 3, Some 4]]) 0) \<and>
   (\<exists>out. X_std [[Some 5, Some 1, None], [Some 5, Some 3, Some 4]] = Inr out \<and>
      out ! 0 ! 0 = Some 0 \<and> out ! 1 ! 0 = Some 0)"
proof -
  let ?M = "[[Some 5, Some 1, None], [Some 5, Some 3, Some (4::real)]]"
  have h: "is_matrix 2 3 ?M" by (simp add: is_matrix_def)
  have cc: "constant_col (col (df1 ?M) 0)"
    by (simp add: constant_col_def col_def df1_def)
  from X_std_constant_column[OF h _ _ _ cc] obtain out where
    "X_std ?M = Inr out" "\<forall>i<2. out ! i ! 0 = Some 0"
    by auto
  then have "X_std ?M = Inr out \<and> out ! 0 ! 0 = Some 0 \<and> out ! 1 ! 0 = Some 0" by simp
  with h cc show ?thesis by blast
qed

text \<open>
  Every array that \<open>X_std\<close> returns holds numbers only and is centred: each of its
  columns, constant or not, has mean 0. This is the hypothesis on the input of the
  covariance stage below.
\<close>

lemma X_std_column_means:
  assumes "is_matrix n d M" "0 < n" "0 < d" "X_std M = Inr (map (map Some) out)" "j < d"
  shows "np_mean (col out j) = 0"
proof -
  let ?X = "df1 M"
  have mx: "is_matrix n d ?X" using assms(1) by (rule is_matrix_df1)
  have "X_std M = Inr (map (map Some) (scaled ?X d))"
    unfolding X_std_def using mx assms(2,3) by (rule StandardScaler_fit_transform_eq)
  then have out: "out = scaled ?X d" using assms(4) by (simp add: map_map_Some_eq)
  have "col ?X j \<noteq> []"
    using mx assms(2) by (auto simp: col_def is_matrix_def)
  then show ?thesis
    unfolding out using assms(5) by (simp add: col_scaled np_mean_scaled)
qed


section \<open>The covariance matrix\<close>

lemma length_np_T: "length (np_T X) = ncols X"
  by (simp add: np_T_def)

lemma np_T_nth: "j < ncols X \<Longrightarrow> np_T X ! j = col X j"
  by (simp add: np_T_def)

lemma is_matrix_np_T:
  assumes "is_matrix n d X" "0 < n"
  shows "is_matrix d n (np_T X)"
proof -
  have "ncols X = d" "length X = n"
    using assms by (simp_all add: is_matrix_ncols is_matrix_def)
  then show ?thesis
    by (simp add: is_matrix_def np_T_def list_all_length length_col)
qed

lemma np_T_nth_nth:
  assumes "is_matrix n d X" "0 < n" "j < d" "i < n"
  shows "np_T X ! j ! i = X ! i ! j"
proof -
  have "ncols X = d" "length X = n"
    using assms(1,2) by (simp_all add: is_matrix_ncols is_matrix_def)
  then show ?thesis using assms(3,4) by (simp add: np_T_nth col_nth)
qed

lemma sum_list_map2_nth:
  "length xs = length ys \<Longrightarrow>
     sum_list (map2 (*) xs ys) = (\<Sum>i<length xs. xs ! i * (ys ! i :: real))"
proof -
  assume l: "length xs = length ys"
  have "sum_list (map2 (*) xs ys) = (\<Sum>i = 0..<length (map2 (*) xs ys). map2 (*) xs ys ! i)"
    by (rule sum_list_sum_nth)
  also have "\<dots> = (\<Sum>i = 0..<length xs. xs ! i * ys ! i)"
    using l by (intro sum.cong) simp_all
  finally show ?thesis by (simp add: atLeast0LessThan)
qed

lemma np_dot_nth:
  assumes "is_matrix a b A" "is_matrix b c B" "0 < b" "j < a" "k < c"
  shows "np_dot A B ! j ! k = (\<Sum>i<b. A ! j ! i * B ! i ! k)"
proof -
  have la: "length (A ! j) = b" using assms(1,4) by (rule is_matrix_row)
  have lb: "length B = b" using assms(2) by (simp add: is_matrix_def)
  have nc: "ncols B = c" using assms(2,3) by (rule is_matrix_ncols)
  have "np_dot A B ! j ! k = sum_list (map2 (*) (A ! j) (col B k))"
    using assms(1,4,5) nc by (simp add: np_dot_def is_matrix_def length_np_T np_T_nth)
  also have "\<dots> = (\<Sum>i<b. A ! j ! i * col B k ! i)"
    using la lb by (simp add: sum_list_map2_nth length_col)
  also have "\<dots> = (\<Sum>i<b. A ! j ! i * B ! i ! k)"
    using lb by (intro sum.cong) (simp_all add: col_nth)
  finally show ?thesis .
qed

lemma is_matrix_np_dot:
  assumes "is_matrix a b A" "is_matrix b c B" "0 < b"
  shows "is_matrix a c (np_dot A B)"
  using assms(1) is_matrix_ncols[OF assms(2,3)]
  by (simp add: is_matrix_def np_dot_def list_all_length length_np_T)

lemma length_mean_vec: "is_matrix n d X \<Longrightarrow> 0 < n \<Longrightarrow> length (mean_vec X) = d"
  by (simp add: mean_vec_def is_matrix_ncols)

lemma mean_vec_nth:
  "is_matrix n d X \<Longrightarrow> 0 < n \<Longrightarrow> j < d \<Longrightarrow> mean_vec X ! j = np_mean (col X j)"
  by (simp add: mean_vec_def is_matrix_ncols)

lemma is_matrix_sub_rows:
  "is_matrix n d X \<Longrightarrow> length v = d \<Longrightarrow> is_matrix n d (sub_rows X v)"
  by (simp add: is_matrix_def sub_rows_def list_all_length)

lemma sub_rows_nth:
  "is_matrix n d X \<Longrightarrow> length v = d \<Longrightarrow> i < n \<Longrightarrow> j < d \<Longrightarrow>
     sub_rows X v ! i ! j = X ! i ! j - v ! j"
  by (simp add: is_matrix_def sub_rows_def list_all_length)

lemma is_matrix_cov_mat:
  assumes "is_matrix n d X" "0 < n"
  shows "is_matrix d d (cov_mat X)"
proof -
  let ?Y = "sub_rows X (mean_vec X)"
  have y: "is_matrix n d ?Y"
    using assms by (simp add: is_matrix_sub_rows length_mean_vec)
  have "is_matrix d d (np_dot (np_T ?Y) ?Y)"
    using is_matrix_np_T[OF y assms(2)] y assms(2) by (rule is_matrix_np_dot)
  then show ?thesis
    by (simp add: cov_mat_def is_matrix_def list_all_length)
qed

lemma cov_mat_nth:
  assumes "is_matrix n d X" "0 < n" "j < d" "k < d"
  shows "cov_mat X ! j ! k =
     np_true_divide (\<Sum>i<n. centred X i j * centred X i k) (real n - 1)"
proof -
  let ?Y = "sub_rows X (mean_vec X)"
  have y: "is_matrix n d ?Y"
    using assms by (simp add: is_matrix_sub_rows length_mean_vec)
  have yn: "?Y ! i ! l = centred X i l" if "i < n" "l < d" for i l
    using assms(1,2) that by (simp add: sub_rows_nth length_mean_vec mean_vec_nth centred_def)
  have m: "is_matrix d d (np_dot (np_T ?Y) ?Y)"
    using is_matrix_np_T[OF y assms(2)] y assms(2) by (rule is_matrix_np_dot)
  have "np_dot (np_T ?Y) ?Y ! j ! k = (\<Sum>i<n. np_T ?Y ! j ! i * ?Y ! i ! k)"
    using is_matrix_np_T[OF y assms(2)] y assms(2,3,4) by (rule np_dot_nth)
  also have "\<dots> = (\<Sum>i<n. centred X i j * centred X i k)"
    using assms(2,3,4) by (intro sum.cong) (simp_all add: np_T_nth_nth[OF y] yn)
  finally have e: "np_dot (np_T ?Y) ?Y ! j ! k = (\<Sum>i<n. centred X i j * centred X i k)" .
  have "length (np_dot (np_T ?Y) ?Y) = d" "length (np_dot (np_T ?Y) ?Y ! j) = d"
    using m assms(3) by (simp_all add: is_matrix_def list_all_length)
  then show ?thesis
    using assms e by (simp add: cov_mat_def nrows_def is_matrix_def)
qed


lemma cov_mat_Some:
  assumes "is_matrix n d X" "2 \<le> n" "j < d" "k < d"
  shows "cov_mat X ! j ! k = Some ((\<Sum>i<n. centred X i j * centred X i k) / (real n - 1))"
  using cov_mat_nth[OF assms(1) _ assms(3,4)] assms(2) by (simp add: np_true_divide_def)

text \<open>
  Claim C2. For a standardized array \<open>X\<close> of shape \<open>(n, d)\<close> (every column has mean 0)
  with \<open>n \<ge> 2\<close>, the covariance cell returns the \<open>d \<times> d\<close> array whose entry \<open>(j, k)\<close>
  is the unbiased sample estimator: the sum over the rows \<open>i\<close> of \<open>X[i][j] * X[i][k]\<close>,
  divided by \<open>n - 1\<close>. It is computed (\<open>cov_mat\<close>) as the product of the transposed
  centred data with the centred data, divided by \<open>n - 1\<close>.
\<close>

theorem cov_mat_unbiased_estimator:
  assumes "is_matrix n d X" "2 \<le> n" "\<forall>j<d. np_mean (col X j) = 0"
  shows "is_matrix d d (cov_mat X) \<and>
    (\<forall>j<d. \<forall>k<d. cov_mat X ! j ! k = Some ((\<Sum>i<n. X ! i ! j * X ! i ! k) / (real n - 1)))"
proof -
  have "cov_mat X ! j ! k = Some ((\<Sum>i<n. X ! i ! j * X ! i ! k) / (real n - 1))"
    if "j < d" "k < d" for j k
    using cov_mat_Some[OF assms(1,2) that] assms(3) that by (simp add: centred_def)
  moreover have "is_matrix d d (cov_mat X)"
    using assms(1,2) by (intro is_matrix_cov_mat[of n]) simp_all
  ultimately show ?thesis by simp
qed

theorem cov_mat_unbiased_estimator_witness:
  "is_matrix 2 2 [[0, -1], [0, 1::real]] \<and>
   np_mean (col [[0, -1], [0, 1]] 0) = 0 \<and> np_mean (col [[0, -1], [0, 1]] 1) = 0 \<and>
   cov_mat [[0, -1], [0, 1]] ! 1 ! 1 = Some 2"
proof -
  let ?X = "[[0, -1], [0, 1::real]]"
  have h: "is_matrix 2 2 ?X" by (simp add: is_matrix_def)
  have m: "np_mean (col ?X 0) = 0" "np_mean (col ?X 1) = 0"
    by (simp_all add: np_mean_def col_def)
  have z: "\<forall>j<2. np_mean (col ?X j) = 0"
    using m by (simp add: less_Suc_eq numeral_2_eq_2)
  have "cov_mat ?X ! 1 ! 1 = Some ((\<Sum>i<2. ?X ! i ! 1 * ?X ! i ! 1) / (real 2 - 1))"
    using cov_mat_unbiased_estimator[OF h _ z] by simp
  also have "\<dots> = Some 2"
    by (simp add: numeral_2_eq_2)
  finally show ?thesis using h m by simp
qed

lemma cov_mat_symmetric:
  assumes "is_matrix n d X" "0 < n" "j < d" "k < d"
  shows "cov_mat X ! j ! k = cov_mat X ! k ! j"
  using cov_mat_nth[OF assms(1,2,3,4)] cov_mat_nth[OF assms(1,2,4,3)]
  by (simp add: mult.commute)

lemma cov_mat_diagonal:
  assumes "is_matrix n d X" "2 \<le> n" "j < d"
  shows "\<exists>v. cov_mat X ! j ! j = Some v \<and> 0 \<le> v"
proof -
  have "0 \<le> (\<Sum>i<n. centred X i j * centred X i j)"
    by (intro sum_nonneg) simp
  then have "0 \<le> (\<Sum>i<n. centred X i j * centred X i j) / (real n - 1)"
    using assms(2) by (intro divide_nonneg_nonneg) simp_all
  then show ?thesis using cov_mat_Some[OF assms(1,2,3,3)] by simp
qed

lemma squeeze_Matrix: "length c \<noteq> 1 \<Longrightarrow> squeeze c = Matrix c"
  by (cases c rule: squeeze.cases) simp_all

lemma np_cov_unsqueezed:
  assumes "is_matrix n d X" "0 < n" "0 < d"
  shows "map (map (\<lambda>x. fmul (Some x)
              (np_true_divide 1 (if real (ncols (np_T X)) - 1 \<le> 0 then 0
                                 else real (ncols (np_T X)) - 1))))
           (np_dot (map2 (\<lambda>r a. map (\<lambda>x. x - a) r) (np_T X) (map np_mean (np_T X)))
              (np_T (map2 (\<lambda>r a. map (\<lambda>x. x - a) r) (np_T X) (map np_mean (np_T X)))))
         = cov_mat X"
    (is "map (map ?f) (np_dot ?Y (np_T ?Y)) = _")
proof -
  have t: "is_matrix d n (np_T X)" using assms(1,2) by (rule is_matrix_np_T)
  have lt: "length (np_T X) = d" using t by (simp add: is_matrix_def)
  have nc: "ncols (np_T X) = n" using t assms(3) by (rule is_matrix_ncols)
  have rowlen: "length (np_T X ! j) = n" if "j < d" for j
    using t that by (rule is_matrix_row)
  have y: "is_matrix d n ?Y"
    using lt rowlen by (simp add: is_matrix_def list_all_length)
  have yn: "?Y ! j ! i = centred X i j" if "j < d" "i < n" for j i
  proof -
    have "np_T X ! j = col X j"
      using assms(1,2) that(1) by (simp add: np_T_nth is_matrix_ncols)
    then show ?thesis
      using that lt rowlen[OF that(1)] np_T_nth_nth[OF assms(1,2) that]
      by (simp add: centred_def)
  qed
  have yt: "is_matrix n d (np_T ?Y)" using y assms(3) by (rule is_matrix_np_T)
  have c: "is_matrix d d (np_dot ?Y (np_T ?Y))"
    using y yt assms(2) by (rule is_matrix_np_dot)
  have entry: "np_dot ?Y (np_T ?Y) ! j ! k = (\<Sum>i<n. centred X i j * centred X i k)"
    if "j < d" "k < d" for j k
  proof -
    have "np_dot ?Y (np_T ?Y) ! j ! k = (\<Sum>i<n. ?Y ! j ! i * np_T ?Y ! i ! k)"
      using y yt assms(2) that by (rule np_dot_nth)
    also have "\<dots> = (\<Sum>i<n. centred X i j * centred X i k)"
      using that assms(3) by (intro sum.cong) (simp_all add: np_T_nth_nth[OF y] yn)
    finally show ?thesis .
  qed
  have f: "?f x = np_true_divide x (real n - 1)" for x
    using assms(2) by (simp add: nc fmul_def np_true_divide_def)
  have cm: "is_matrix d d (cov_mat X)" using assms(1,2) by (rule is_matrix_cov_mat)
  show ?thesis
  proof (rule nth_equalityI)
    show "length (map (map ?f) (np_dot ?Y (np_T ?Y))) = length (cov_mat X)"
      unfolding length_map using c cm by (simp add: is_matrix_def)
  next
    fix j assume "j < length (map (map ?f) (np_dot ?Y (np_T ?Y)))"
    then have j: "j < d" unfolding length_map using c by (simp add: is_matrix_def)
    have l1: "length (np_dot ?Y (np_T ?Y) ! j) = d" using c j by (rule is_matrix_row)
    have l2: "length (cov_mat X ! j) = d" using cm j by (rule is_matrix_row)
    have ld: "length (np_dot ?Y (np_T ?Y)) = d" using c by (simp add: is_matrix_def)
    have "map ?f (np_dot ?Y (np_T ?Y) ! j) = cov_mat X ! j"
    proof (rule nth_equalityI)
      show "length (map ?f (np_dot ?Y (np_T ?Y) ! j)) = length (cov_mat X ! j)"
        unfolding length_map using l1 l2 by simp
    next
      fix k assume "k < length (map ?f (np_dot ?Y (np_T ?Y) ! j))"
      then have k: "k < d" unfolding length_map using l1 by simp
      have "map ?f (np_dot ?Y (np_T ?Y) ! j) ! k = ?f (np_dot ?Y (np_T ?Y) ! j ! k)"
        using k l1 by (intro nth_map) simp
      also have "\<dots> = np_true_divide (\<Sum>i<n. centred X i j * centred X i k) (real n - 1)"
        unfolding f entry[OF j k] ..
      finally show "map ?f (np_dot ?Y (np_T ?Y) ! j) ! k = cov_mat X ! j ! k"
        using cov_mat_nth[OF assms(1,2) j k] by simp
    qed
    moreover have "map (map ?f) (np_dot ?Y (np_T ?Y)) ! j = map ?f (np_dot ?Y (np_T ?Y) ! j)"
      using j ld by (intro nth_map) simp
    ultimately show "map (map ?f) (np_dot ?Y (np_T ?Y)) ! j = cov_mat X ! j"
      by simp
  qed
qed

lemma np_cov_eq:
  assumes "is_matrix n d X" "0 < n" "0 < d"
  shows "np_cov (np_T X) = squeeze (cov_mat X)"
  unfolding np_cov_def Let_def np_cov_unsqueezed[OF assms] ..


lemma squeeze_1x1:
  assumes "is_matrix 1 1 c"
  shows "\<exists>v. c = [[v]] \<and> squeeze c = Scalar v"
proof -
  from assms obtain r where c: "c = [r]" and "length r = 1"
    by (cases c) (auto simp: is_matrix_def)
  then obtain v where "r = [v]" by (cases r) auto
  with c show ?thesis by simp
qed

lemma np_cov_Matrix:
  assumes "is_matrix n d X" "0 < n" "np_cov (np_T X) = Matrix C" "j < d" "k < d"
  shows "C = cov_mat X"
proof -
  have d: "0 < d" using assms(4) by simp
  have e: "np_cov (np_T X) = squeeze (cov_mat X)"
    using assms(1,2) d by (rule np_cov_eq)
  have cm: "is_matrix d d (cov_mat X)" using assms(1,2) by (rule is_matrix_cov_mat)
  show ?thesis
  proof (cases "d = 1")
    case True
    then show ?thesis using squeeze_1x1[of "cov_mat X"] cm e assms(3) by auto
  next
    case False
    then have "length (cov_mat X) \<noteq> 1" using cm by (simp add: is_matrix_def)
    then show ?thesis using e assms(3) by (simp add: squeeze_Matrix)
  qed
qed

text \<open>
  Claim C3. For \<open>n \<ge> 2\<close> the covariance matrix is symmetric and every entry of its
  diagonal is at least 0, both as the cell computes it (\<open>cov_mat\<close>) and as the
  matrix that \<^verbatim>\<open>np.cov(X_std.T)\<close> returns.
\<close>

theorem cov_mat_symmetric_nonneg_diagonal:
  assumes "is_matrix n d X" "2 \<le> n"
  shows "(\<forall>j<d. \<forall>k<d. cov_mat X ! j ! k = cov_mat X ! k ! j) \<and>
         (\<forall>j<d. \<exists>v. cov_mat X ! j ! j = Some v \<and> 0 \<le> v) \<and>
         (\<forall>C. np_cov (np_T X) = Matrix C \<longrightarrow>
            (\<forall>j<d. \<forall>k<d. C ! j ! k = C ! k ! j) \<and>
            (\<forall>j<d. \<exists>v. C ! j ! j = Some v \<and> 0 \<le> v))"
proof -
  have n: "0 < n" using assms(2) by simp
  have sym: "\<forall>j<d. \<forall>k<d. cov_mat X ! j ! k = cov_mat X ! k ! j"
    using cov_mat_symmetric[OF assms(1) n] by blast
  have diag: "\<forall>j<d. \<exists>v. cov_mat X ! j ! j = Some v \<and> 0 \<le> v"
    using cov_mat_diagonal[OF assms] by blast
  have "(\<forall>j<d. \<forall>k<d. C ! j ! k = C ! k ! j) \<and> (\<forall>j<d. \<exists>v. C ! j ! j = Some v \<and> 0 \<le> v)"
    if "np_cov (np_T X) = Matrix C" for C
  proof (cases "d = 0")
    case True
    then show ?thesis by simp
  next
    case False
    then have "C = cov_mat X"
      using np_cov_Matrix[OF assms(1) n that, of 0 0] by simp
    then show ?thesis using sym diag by simp
  qed
  then show ?thesis using sym diag by blast
qed

theorem cov_mat_symmetric_nonneg_diagonal_witness:
  "is_matrix 2 2 [[0, -1], [0, 1::real]] \<and>
   cov_mat [[0, -1], [0, 1]] ! 0 ! 1 = cov_mat [[0, -1], [0, 1]] ! 1 ! 0 \<and>
   (\<exists>v. cov_mat [[0, -1], [0, 1]] ! 1 ! 1 = Some v \<and> 0 \<le> v) \<and>
   np_cov (np_T [[0, -1], [0, 1]]) = Matrix [[Some 0, Some 0], [Some 0, Some 2]]"
proof -
  let ?X = "[[0, -1], [0, 1::real]]"
  have h: "is_matrix 2 2 ?X" by (simp add: is_matrix_def)
  have c: "np_cov (np_T ?X) = Matrix [[Some 0, Some 0], [Some 0, Some 2]]"
    by (simp add: np_cov_def np_T_def ncols_def col_def np_dot_def np_mean_def
        np_true_divide_def fmul_def Let_def)
  from cov_mat_symmetric_nonneg_diagonal[OF h]
  have "cov_mat ?X ! 0 ! 1 = cov_mat ?X ! 1 ! 0"
    and "\<exists>v. cov_mat ?X ! 1 ! 1 = Some v \<and> 0 \<le> v"
    by simp_all
  with h c show ?thesis by blast
qed

text \<open>
  Claim C4, as the spec states it: the covariance stage fails with
  \<open>InsufficientSamples\<close> when the input has one row. The cell does not fail: for the
  one-row array \<open>[[0, 0]]\<close> (what \<open>X_std\<close> returns for one user and two movies) it
  returns the \<open>2 \<times> 2\<close> array of \<^verbatim>\<open>nan\<close>, the result of \<^verbatim>\<open>0 / 0\<close>.
\<close>

theorem covariance_single_row_counterexample:
  "covariance [[0, 0]] = Inr [[None, None], [None, None]]"
  by (simp add: covariance_def cov_mat_def nrows_def ncols_def np_T_def col_def np_dot_def
      sub_rows_def mean_vec_def np_mean_def np_true_divide_def)

text \<open>
  Claim C4, amended: the covariance stage never fails. For every array with
  \<open>n \<ge> 2\<close> rows it returns a \<open>d \<times> d\<close> array of numbers; for an array with one row it
  returns a \<open>d \<times> d\<close> array whose entries are all \<^verbatim>\<open>nan\<close>.
\<close>

theorem covariance_never_fails:
  assumes "is_matrix n d X" "0 < n"
  shows "\<exists>C. covariance X = Inr C \<and> is_matrix d d C \<and>
           (n = 1 \<longrightarrow> (\<forall>j<d. \<forall>k<d. C ! j ! k = None)) \<and>
           (2 \<le> n \<longrightarrow> (\<forall>j<d. \<forall>k<d. C ! j ! k \<noteq> None))"
proof -
  have "cov_mat X ! j ! k = None" if "n = 1" "j < d" "k < d" for j k
    using cov_mat_nth[OF assms that(2,3)] that(1) by (simp add: np_true_divide_def)
  moreover have "cov_mat X ! j ! k \<noteq> None" if "2 \<le> n" "j < d" "k < d" for j k
    using cov_mat_Some[OF assms(1) that] by simp
  ultimately show ?thesis
    using is_matrix_cov_mat[OF assms] by (simp add: covariance_def)
qed

theorem covariance_never_fails_witness:
  "is_matrix 2 2 [[0, -1], [0, 1::real]] \<and>
   (\<exists>C. covariance [[0, -1], [0, 1]] = Inr C \<and> is_matrix 2 2 C \<and> C ! 0 ! 1 \<noteq> None) \<and>
   is_matrix 1 2 [[0, 0::real]] \<and>
   (\<exists>C. covariance [[0, 0]] = Inr C \<and> is_matrix 2 2 C \<and> C ! 0 ! 1 = None)"
proof -
  have h2: "is_matrix 2 2 [[0, -1], [0, 1::real]]" by (simp add: is_matrix_def)
  have h1: "is_matrix 1 2 [[0, 0::real]]" by (simp add: is_matrix_def)
  have "\<exists>C. covariance [[0, -1], [0, 1]] = Inr C \<and> is_matrix 2 2 C \<and> C ! 0 ! 1 \<noteq> None"
    using covariance_never_fails[OF h2] by auto
  moreover have "\<exists>C. covariance [[0, 0]] = Inr C \<and> is_matrix 2 2 C \<and> C ! 0 ! 1 = None"
    using covariance_never_fails[OF h1] by auto
  ultimately show ?thesis using h1 h2 by blast
qed

text \<open>
  Claim C10. The cell presents \<^verbatim>\<open>np.cov(X_std.T)\<close> as the same matrix as its formula
  (``Create the same covariance matrix with 1 line of code''). For one feature the two
  are not the same array: for two users who rate the one movie 3 and 1 the formula
  returns the array \<open>[[2]]\<close> of shape \<open>(1, 1)\<close>, and \<^verbatim>\<open>np.cov\<close>, which squeezes its
  result, returns the value 2 as a zero-dimensional array.
\<close>

theorem np_cov_single_feature:
  "X_std [[Some 3], [Some 1]] = Inr [[Some 1], [Some (-1)]] \<and>
   cov_mat [[1], [-1]] = [[Some 2]] \<and>
   np_cov (np_T [[1], [-1]]) = Scalar (Some 2)"
  by (simp add: X_std_def df1_def StandardScaler_fit_transform_def np_var_def
      handle_zeros_in_scale_def power2_eq_square
      np_cov_def cov_mat_def nrows_def np_T_def ncols_def col_def np_dot_def
      sub_rows_def mean_vec_def np_mean_def np_true_divide_def fmul_def Let_def)

text \<open>
  For two features or more the two computations return the same matrix, and for one
  feature the same value.
\<close>

lemma np_cov_agrees_with_cov_mat:
  assumes "is_matrix n d X" "2 \<le> n" "0 < d"
  shows "(2 \<le> d \<longrightarrow> np_cov (np_T X) = Matrix (cov_mat X)) \<and>
         (d = 1 \<longrightarrow> (\<exists>v. cov_mat X = [[v]] \<and> np_cov (np_T X) = Scalar v))"
proof -
  have n: "0 < n" using assms(2) by simp
  have e: "np_cov (np_T X) = squeeze (cov_mat X)"
    using assms(1) n assms(3) by (rule np_cov_eq)
  have cm: "is_matrix d d (cov_mat X)" using assms(1) n by (rule is_matrix_cov_mat)
  have "np_cov (np_T X) = Matrix (cov_mat X)" if "2 \<le> d"
  proof -
    have "length (cov_mat X) \<noteq> 1" using cm that by (simp add: is_matrix_def)
    then show ?thesis using e by (simp add: squeeze_Matrix)
  qed
  moreover have "\<exists>v. cov_mat X = [[v]] \<and> np_cov (np_T X) = Scalar v" if "d = 1"
    using squeeze_1x1[of "cov_mat X"] cm that e by auto
  ultimately show ?thesis by blast
qed


section \<open>Eigenpairs and explained variance\<close>

text \<open>
  Claim C5. The ranking stage is to return the eigenpairs sorted by eigenvalue,
  largest first. \<open>eig_pairs\<close> keeps the order in which \<^verbatim>\<open>np.linalg.eig\<close> returned
  them: the cell announces a sorted list (``Eigenvalues in descending order:'') and
  has no call that sorts. For two users who both rated a first movie with 5, and a
  second movie with 1 and 3, the standardized data is \<open>[[0, -1], [0, 1]]\<close>, its
  covariance matrix is the diagonal matrix of 0 and 2, the eigenvalues come as
  \<open>[0, 2]\<close> with the unit vectors, and the list of \<open>eig_pairs\<close> is ascending.
\<close>

theorem eig_pairs_not_descending:
  "X_std [[Some 5, Some 1], [Some 5, Some 3]] = Inr [[Some 0, Some (-1)], [Some 0, Some 1]] \<and>
   np_cov (np_T [[0, -1], [0, 1]]) = Matrix [[Some 0, Some 0], [Some 0, Some 2]] \<and>
   is_eigenpair [[0, 0], [0, 2]] 0 [1, 0] \<and>
   is_eigenpair [[0, 0], [0, 2]] 2 [0, 1] \<and>
   eig_pairs [0, 2] [[1, 0], [0, 1]] = [(0, [1, 0]), (2, [0, 1])] \<and>
   \<not> sorted_wrt (\<ge>) (map fst (eig_pairs [0, 2] [[1, 0], [0, 1]]))"
  by (simp add: X_std_def df1_def StandardScaler_fit_transform_def nrows_def ncols_def col_def
      np_mean_def np_var_def handle_zeros_in_scale_def Let_def power2_eq_square
      np_cov_def np_T_def np_dot_def np_true_divide_def fmul_def
      is_eigenpair_def eig_pairs_def)

text \<open>
  Claim C9. The pipeline is to expose the explained-variance-ratio sequence, of length
  \<open>d\<close>. The cell that asks for it raises \<^verbatim>\<open>NameError\<close> instead, whatever the data:
  the name \<^verbatim>\<open>PCA\<close> is bound by none of the notebook's imports, unless the star import
  of matplotlib binds it.
\<close>

theorem pca_name_error:
  assumes "''PCA'' \<notin> set star"
  shows "pca_explained_variance_ratio star fitted_ratio X = Inl (NameError ''PCA'')"
  using assms by (simp add: pca_explained_variance_ratio_def load_name_def notebook_names_def)

theorem pca_name_error_witness:
  "''PCA'' \<notin> set [''cbook'', ''rcParams'', ''use''] \<and>
   pca_explained_variance_ratio [''cbook'', ''rcParams'', ''use''] (\<lambda>X. map (\<lambda>r. 1) X)
     [[1, 0, 0], [-1, 0, 0]] = Inl (NameError ''PCA'')"
  using pca_name_error[of "[''cbook'', ''rcParams'', ''use'']" "\<lambda>X. map (\<lambda>r. 1) X"
      "[[1, 0, 0], [-1, 0, 0]]"]
  by simp

text \<open>
  Claim C6, as the spec states it: for every eigenvalue sequence whose sum is not zero
  the cumulative sum of the ratios is non-decreasing. For the eigenvalues 2 and -1,
  whose sum is 1, the ratios are 2 and -1 and the cumulative sums are 2 and 1.
\<close>

theorem explained_ratios_negative_counterexample:
  "explained_ratios [2, -1] = Inr [2, -1] \<and> np_cumsum [2, -1] = [2, 1] \<and>
   \<not> sorted (np_cumsum [2, -1])"
  by (simp add: explained_ratios_def np_cumsum_def)

lemma cumsum_from_props:
  assumes "\<forall>r\<in>set rs. 0 \<le> r"
  shows "length (cumsum_from a rs) = length rs \<and> sorted (cumsum_from a rs) \<and>
         (\<forall>c\<in>set (cumsum_from a rs). a \<le> c) \<and>
         (rs \<noteq> [] \<longrightarrow> last (cumsum_from a rs) = a + sum_list rs)"
  using assms
proof (induction rs arbitrary: a)
  case Nil
  then show ?case by simp
next
  case (Cons r rs)
  then have rs: "\<forall>r\<in>set rs. 0 \<le> r" and r: "0 \<le> r" by simp_all
  note ih = Cons.IH[OF rs, of "a + r"]
  have 1: "length (cumsum_from a (r # rs)) = length (r # rs)" using ih by simp
  have 2: "sorted (cumsum_from a (r # rs))" using ih by simp
  have 3: "\<forall>c\<in>set (cumsum_from a (r # rs)). a \<le> c" using ih r by auto
  have 4: "last (cumsum_from a (r # rs)) = a + sum_list (r # rs)"
  proof (cases "rs = []")
    case True
    then show ?thesis by simp
  next
    case False
    then have "cumsum_from (a + r) rs \<noteq> []" using ih by auto
    then show ?thesis using ih False by (simp add: add.assoc)
  qed
  show ?case using 1 2 3 4 by blast
qed

text \<open>
  Claim C6, amended: for every sequence of eigenvalues that are not negative and whose
  sum is not zero, the ratios \<open>eigenvalue_i / sum\<close> have a cumulative sum that is
  non-decreasing in the component index, and the cumulative sum over the whole
  sequence is 1.
\<close>

theorem explained_ratios_cumsum:
  assumes "\<forall>e\<in>set ev. 0 \<le> e" "sum_list ev \<noteq> 0"
  shows "\<exists>rs. explained_ratios ev = Inr rs \<and> length rs = length ev \<and>
           (\<forall>i<length ev. rs ! i = ev ! i / sum_list ev) \<and>
           length (np_cumsum rs) = length ev \<and> np_cumsum rs \<noteq> [] \<and>
           sorted (np_cumsum rs) \<and> last (np_cumsum rs) = 1"
proof -
  let ?t = "sum_list ev"
  let ?rs = "map (\<lambda>e. e / ?t) ev"
  have run: "explained_ratios ev = Inr ?rs"
    using assms(2) by (simp add: explained_ratios_def Let_def)
  have "0 \<le> ?t" by (rule sum_list_nonneg) (use assms(1) in blast)
  then have tpos: "0 < ?t" using assms(2) by simp
  have rs0: "\<forall>r\<in>set ?rs. 0 \<le> r"
  proof
    fix r assume "r \<in> set ?rs"
    then have "r \<in> (\<lambda>e. e / ?t) ` set ev" by (simp only: set_map)
    then obtain e where e: "e \<in> set ev" and r: "r = e / ?t" by blast
    from e assms(1) have "0 \<le> e" by blast
    then show "0 \<le> r" unfolding r using tpos by (rule divide_nonneg_pos)
  qed
  have ne: "?rs \<noteq> []" using assms(2) by auto
  have sum1: "sum_list ?rs = 1"
    using assms(2) sum_list_div_const[of "\<lambda>e. e" ?t ev] by simp
  have c: "length (cumsum_from 0 ?rs) = length ?rs" "sorted (cumsum_from 0 ?rs)"
    "last (cumsum_from 0 ?rs) = 0 + sum_list ?rs"
    using cumsum_from_props[OF rs0, of 0] ne by blast+
  have len: "length (np_cumsum ?rs) = length ev" using c(1) by (simp add: np_cumsum_def)
  then have "np_cumsum ?rs \<noteq> []" using ne by auto
  moreover have "\<forall>i<length ev. ?rs ! i = ev ! i / ?t" by simp
  ultimately show ?thesis
    using run len c(2,3) sum1 by (intro exI[of _ ?rs]) (simp add: np_cumsum_def)
qed

theorem explained_ratios_cumsum_witness:
  "sum_list [3, 0, 1::real] \<noteq> 0 \<and>
   explained_ratios [3, 0, 1] = Inr [3 / 4, 0, 1 / 4] \<and>
   np_cumsum [3 / 4, 0, 1 / 4] = [3 / 4, 3 / 4, 1] \<and>
   (\<exists>rs. explained_ratios [3, 0, 1] = Inr rs \<and> sorted (np_cumsum rs) \<and> last (np_cumsum rs) = 1)"
proof -
  have a: "\<forall>e\<in>set [3, 0, 1::real]. 0 \<le> e" by simp
  have b: "sum_list [3, 0, 1::real] \<noteq> 0" by simp
  have c: "explained_ratios [3, 0, 1] = Inr [3 / 4, 0, 1 / 4]"
    "np_cumsum [3 / 4, 0, 1 / 4] = [3 / 4, 3 / 4, 1]"
    by (simp_all add: explained_ratios_def np_cumsum_def)
  from explained_ratios_cumsum[OF a b]
  have "\<exists>rs. explained_ratios [3, 0, 1] = Inr rs \<and> sorted (np_cumsum rs) \<and> last (np_cumsum rs) = 1"
    by blast
  with b c show ?thesis by blast
qed

text \<open>
  The eigenvalues that the notebook's ranking holds are magnitudes (\<^verbatim>\<open>np.abs\<close>), so the
  amended claim applies to them.
\<close>

lemma eig_pairs_magnitudes: "\<forall>e\<in>set (map fst (eig_pairs eig_vals eig_vecs)). 0 \<le> e"
  by (auto simp: eig_pairs_def)

section \<open>The round trip through the full basis\<close>













end
